theory Spec2Isabelle
  imports Main
begin

section \<open>JavaScript values reaching the handlers\<close>

text \<open>
  The three handlers of \<^verbatim>\<open>functions/api/messages.js\<close> receive untyped data: the
  decoded JSON payload of a callable (\<open>data\<close>) and the parsed query of an HTTP
  request (\<open>req.query\<close>). A field that is absent reads as \<open>undefined\<close>. An object
  lists each of its fields once.

  A number is a double. The handlers observe a number in two ways only, its
  truthiness and its \<open>toString()\<close>, and \<open>Number.prototype.toString\<close> tells any two
  numbers apart but \<open>0\<close> and \<open>-0\<close>. So \<open>JNum t\<close> stands for the number that prints as
  \<open>t\<close> (\<open>1\<close>, \<open>0.5\<close>, \<open>1e+21\<close>, \<open>NaN\<close>, \<open>Infinity\<close>), and \<open>JNum ''-0''\<close> for negative zero,
  which prints as \<open>0\<close>.
\<close>

datatype jsval =
    JUndefined
  | JNull
  | JBool bool
  | JNum string
  | JStr string
  | JArr "jsval list"
  | JObj "(string \<times> jsval) list"

text \<open>What a \<open>try\<close> block can catch here: an \<open>HttpsError\<close> (code, message, details),
  a \<open>TypeError\<close> of the language, or an \<open>Error\<close> raised by the store client.\<close>

datatype exn =
    HttpsError string string "string option"
  | TypeError string
  | Error string

fun message :: "exn \<Rightarrow> string" where
  "message (HttpsError c m d) = m"
| "message (TypeError m) = m"
| "message (Error m) = m"

text \<open>\<open>!v\<close> is true exactly for the falsy values: \<open>undefined\<close>, \<open>null\<close>,
  \<open>false\<close>, the numbers \<open>0\<close>, \<open>-0\<close> and \<open>NaN\<close>, and the empty string. Arrays and
  objects are always truthy.\<close>

fun truthy :: "jsval \<Rightarrow> bool" where
  "truthy JUndefined = False"
| "truthy JNull = False"
| "truthy (JBool b) = b"
| "truthy (JNum t) = (t \<noteq> ''0'' \<and> t \<noteq> ''-0'' \<and> t \<noteq> ''NaN'')"
| "truthy (JStr s) = (s \<noteq> [])"
| "truthy (JArr xs) = True"
| "truthy (JObj kvs) = True"

text \<open>Reading a field of an object: \<open>undefined\<close> when the object has no such field.
  A primitive or an array decoded from JSON has none of the fields read here.\<close>

definition field :: "(string \<times> jsval) list \<Rightarrow> string \<Rightarrow> jsval" where
  "field kvs k = (case map_of kvs k of None \<Rightarrow> JUndefined | Some v \<Rightarrow> v)"

fun getProp :: "jsval \<Rightarrow> string \<Rightarrow> jsval" where
  "getProp (JObj kvs) k = field kvs k"
| "getProp v k = JUndefined"

text \<open>Destructuring \<open>const {...} = v\<close> throws a \<open>TypeError\<close> on \<open>undefined\<close> and
  \<open>null\<close>.\<close>

fun nullish :: "jsval \<Rightarrow> bool" where
  "nullish JUndefined = True"
| "nullish JNull = True"
| "nullish v = False"

subsection \<open>\<open>toString()\<close>\<close>

fun joinComma :: "string list \<Rightarrow> string" where
  "joinComma [] = []"
| "joinComma [s] = s"
| "joinComma (s # t # ss) = s @ CHR '','' # joinComma (t # ss)"

fun sequence :: "(exn + 'a) list \<Rightarrow> exn + 'a list" where
  "sequence [] = Inr []"
| "sequence (r # rs) =
     (case r of Inl e \<Rightarrow> Inl e
      | Inr x \<Rightarrow> (case sequence rs of Inl e \<Rightarrow> Inl e | Inr xs \<Rightarrow> Inr (x # xs)))"

text \<open>
  \<open>v.toString()\<close> as a method call. On \<open>undefined\<close> and \<open>null\<close> the property read
  throws. An object decoded from JSON holds no function, so an own field named
  \<open>toString\<close> makes the call throw; without one \<open>Object.prototype.toString\<close> answers.
  An array joins the string forms of its elements with commas, \<open>undefined\<close> and
  \<open>null\<close> elements giving the empty string.
\<close>

fun toString :: "jsval \<Rightarrow> exn + string"
  and elemString :: "jsval \<Rightarrow> exn + string" where
  "toString JUndefined = Inl (TypeError ''Cannot read properties of undefined'')"
| "toString JNull = Inl (TypeError ''Cannot read properties of null'')"
| "toString (JBool b) = Inr (if b then ''true'' else ''false'')"
| "toString (JNum t) = Inr (if t = ''-0'' then ''0'' else t)"
| "toString (JStr s) = Inr s"
| "toString (JArr xs) =
     (case sequence (map elemString xs) of Inl e \<Rightarrow> Inl e | Inr ss \<Rightarrow> Inr (joinComma ss))"
| "toString (JObj kvs) =
     (if ''toString'' \<in> fst ` set kvs then Inl (TypeError ''toString is not a function'')
      else Inr ''[object Object]'')"
| "elemString JUndefined = Inr []"
| "elemString JNull = Inr []"
| "elemString (JBool b) = toString (JBool b)"
| "elemString (JNum t) = toString (JNum t)"
| "elemString (JStr s) = toString (JStr s)"
| "elemString (JArr xs) = toString (JArr xs)"
| "elemString (JObj kvs) =
     (if ''toString'' \<in> fst ` set kvs
      then Inl (TypeError ''Cannot convert object to primitive value'')
      else Inr ''[object Object]'')"


subsection \<open>\<open>logger.log\<close>\<close>

text \<open>
  \<open>logger.log(message, data)\<close> of \<open>firebase-functions\<close> writes one structured entry.
  A last argument that is a plain object (its \<open>constructor\<close> is \<open>Object\<close>, so it has no
  field of that name of its own) becomes the entry, with the fields \<open>severity\<close> and
  \<open>message\<close> set by the logger; any other argument is only formatted into the message.
  Before it is written the entry is copied by \<open>removeCircular\<close>, which on every object
  it meets, at any depth, calls \<open>obj.toJSON()\<close> when the field \<open>toJSON\<close> is truthy.
  Data decoded from JSON holds no function, so that call throws a \<open>TypeError\<close>.
\<close>

fun removeCircular :: "jsval \<Rightarrow> exn + unit"
  and removeCircularFields :: "(string \<times> jsval) list \<Rightarrow> exn + unit"
  and removeCircularItems :: "jsval list \<Rightarrow> exn + unit" where
  "removeCircular (JObj kvs) =
     (if truthy (field kvs ''toJSON'') then Inl (TypeError ''obj.toJSON is not a function'')
      else removeCircularFields kvs)"
| "removeCircular (JArr xs) = removeCircularItems xs"
| "removeCircular JUndefined = Inr ()"
| "removeCircular JNull = Inr ()"
| "removeCircular (JBool b) = Inr ()"
| "removeCircular (JNum t) = Inr ()"
| "removeCircular (JStr s) = Inr ()"
| "removeCircularFields [] = Inr ()"
| "removeCircularFields (kv # kvs) =
     (case removeCircular (snd kv) of Inl e \<Rightarrow> Inl e | Inr u \<Rightarrow> removeCircularFields kvs)"
| "removeCircularItems [] = Inr ()"
| "removeCircularItems (x # xs) =
     (case removeCircular x of Inl e \<Rightarrow> Inl e | Inr u \<Rightarrow> removeCircularItems xs)"

definition loggerLog :: "jsval \<Rightarrow> exn + unit" where
  "loggerLog lastArg =
     (case lastArg of
        JObj kvs \<Rightarrow>
          if ''constructor'' \<in> fst ` set kvs then Inr ()
          else removeCircular
                 (JObj (filter (\<lambda>kv. fst kv \<noteq> ''severity'' \<and> fst kv \<noteq> ''message'') kvs))
      | _ \<Rightarrow> Inr ())"

section \<open>The document store\<close>

text \<open>
  The store is the external collaborator behind \<open>admin.firestore()\<close>. It is modelled
  as the list of its documents, each under its full path
  \<open>users/u/chats/c/messages/m\<close>, together with the calls that reached it (a read of a
  collection, an added document, a committed batch). Building a reference
  (\<open>collection\<close>, \<open>doc\<close>) is local to the client and is no call to the store.
\<close>

type_synonym path = "string list"

datatype fieldValue = ServerTimestamp | At nat

record messageData =
  senderId :: jsval
  msgText :: jsval
  timestamp :: fieldValue

datatype storeCall = Get path | Add path | Commit "path list"

record firestore =
  documents :: "(path \<times> messageData) list"
  calls :: "storeCall list"

text \<open>
  What the outside world decides during one invocation: the identifiers the client
  generates for \<open>doc()\<close> and \<open>add()\<close>, the time the server stamps on a write, and
  whether a call to the store is rejected, for whatever reason (the store unreachable,
  the data refused, a batch over the limit), with the message of the rejection.
\<close>

record env =
  autoChatId :: string
  autoMessageId :: string
  serverTime :: nat
  getFault :: "string option"
  addFault :: "string option"
  commitFault :: "string option"

subsection \<open>References\<close>

fun splitSlash :: "string \<Rightarrow> string list" where
  "splitSlash [] = [[]]"
| "splitSlash (c # cs) =
     (if c = CHR ''/'' then [] # splitSlash cs
      else (case splitSlash cs of [] \<Rightarrow> [[c]] | w # ws \<Rightarrow> (c # w) # ws))"

text \<open>The segments of a relative path: split at \<open>/\<close>, empty segments dropped (a
  leading or trailing slash is allowed).\<close>

definition segments :: "string \<Rightarrow> path" where
  "segments p = filter (\<lambda>w. w \<noteq> []) (splitSlash p)"

fun hasDoubleSlash :: "string \<Rightarrow> bool" where
  "hasDoubleSlash (a # b # cs) = ((a = CHR ''/'' \<and> b = CHR ''/'') \<or> hasDoubleSlash (b # cs))"
| "hasDoubleSlash cs = False"

text \<open>The client accepts as a resource path a non-empty string without \<open>//\<close>.\<close>

fun validateResourcePath :: "jsval \<Rightarrow> exn + string" where
  "validateResourcePath (JStr p) =
     (if p = [] then Inl (Error ''Path must be a non-empty string.'')
      else if hasDoubleSlash p then Inl (Error ''Paths must not contain //.'')
      else Inr p)"
| "validateResourcePath v = Inl (Error ''Path must be a non-empty string.'')"

text \<open>\<open>ref.collection(name)\<close> for the three constant names of the source
  (\<open>users\<close>, \<open>chats\<close>, \<open>messages\<close>): one more segment.\<close>

definition collection :: "path \<Rightarrow> string \<Rightarrow> path" where
  "collection base name = base @ [name]"

text \<open>\<open>coll.doc(documentPath)\<close>: the argument is validated, its segments are appended,
  and the result must name a document (an even number of segments).\<close>

definition doc :: "path \<Rightarrow> jsval \<Rightarrow> exn + path" where
  "doc coll documentPath =
     (case validateResourcePath documentPath of
        Inl e \<Rightarrow> Inl e
      | Inr p \<Rightarrow>
          (let r = coll @ segments p in
           if even (length r) then Inr r
           else Inl (Error ''Your path does not contain an even number of components.'')))"

text \<open>\<open>coll.doc()\<close> without an argument: a document under a generated identifier.\<close>

definition autoDoc :: "path \<Rightarrow> string \<Rightarrow> path" where
  "autoDoc coll autoId = coll @ [autoId]"

definition docId :: "path \<Rightarrow> string" where
  "docId ref = last ref"

text \<open>
  The chain \<open>collection("users").doc(userId).collection("chats").doc(chatId.toString())
  .collection("messages")\<close>, written three times in the source (lines 51-57, 98-104 and
  145-151). The argument \<open>chatId.toString()\<close> is evaluated after \<open>doc(userId)\<close>.
\<close>

definition messagesRef :: "jsval \<Rightarrow> jsval \<Rightarrow> exn + path" where
  "messagesRef userId chatId =
     (case doc (collection [] ''users'') userId of
        Inl e \<Rightarrow> Inl e
      | Inr u \<Rightarrow>
          (case toString chatId of
             Inl e \<Rightarrow> Inl e
           | Inr c \<Rightarrow>
               (case doc (collection u ''chats'') (JStr c) of
                  Inl e \<Rightarrow> Inl e
                | Inr ch \<Rightarrow> Inr (collection ch ''messages''))))"

subsection \<open>Calls to the store\<close>

text \<open>The documents directly inside a collection, in the order the store lists them.\<close>

definition docsOf :: "(path \<times> messageData) list \<Rightarrow> path \<Rightarrow> (path \<times> messageData) list" where
  "docsOf ds coll = filter (\<lambda>d. fst d \<noteq> [] \<and> butlast (fst d) = coll) ds"

text \<open>\<open>coll.get()\<close>: a snapshot of the documents of the collection.\<close>

definition get :: "env \<Rightarrow> path \<Rightarrow> firestore \<Rightarrow> (exn + (path \<times> messageData) list) \<times> firestore" where
  "get e coll s =
     (let s' = s\<lparr>calls := calls s @ [Get coll]\<rparr> in
      case getFault e of
        Some m \<Rightarrow> (Inl (Error m), s')
      | None \<Rightarrow> (Inr (docsOf (documents s) coll), s'))"

text \<open>\<open>coll.add(data)\<close>: creates a document under a generated identifier; the store
  refuses to create over an existing document and replaces the timestamp sentinel by
  its own time.\<close>

definition resolve :: "env \<Rightarrow> messageData \<Rightarrow> messageData" where
  "resolve e d = (case timestamp d of ServerTimestamp \<Rightarrow> d\<lparr>timestamp := At (serverTime e)\<rparr> | At t \<Rightarrow> d)"

definition add :: "env \<Rightarrow> path \<Rightarrow> messageData \<Rightarrow> firestore \<Rightarrow> (exn + path) \<times> firestore" where
  "add e coll d s =
     (let ref = autoDoc coll (autoMessageId e);
          s' = s\<lparr>calls := calls s @ [Add ref]\<rparr> in
      case addFault e of
        Some m \<Rightarrow> (Inl (Error m), s')
      | None \<Rightarrow>
          if ref \<in> fst ` set (documents s) then (Inl (Error ''Document already exists''), s')
          else (Inr ref, s'\<lparr>documents := documents s @ [(ref, resolve e d)]\<rparr>))"

text \<open>\<open>batch.commit()\<close> for a batch of deletions: all of them are applied, or none.\<close>

definition commit :: "env \<Rightarrow> path list \<Rightarrow> firestore \<Rightarrow> (exn + unit) \<times> firestore" where
  "commit e batch s =
     (let s' = s\<lparr>calls := calls s @ [Commit batch]\<rparr> in
      case commitFault e of
        Some m \<Rightarrow> (Inl (Error m), s')
      | None \<Rightarrow> (Inr (), s'\<lparr>documents := filter (\<lambda>d. fst d \<notin> set batch) (documents s)\<rparr>))"

section \<open>The handlers\<close>

record postResult =
  status :: string
  chatId :: jsval
  messageId :: string

datatype body = ChatMessages string "messageData list" | StatusOnly string

record response =
  httpStatus :: nat
  json :: body

record request =
  query :: "(string \<times> jsval) list"

subsection \<open>\<open>postMessage\<close>\<close>

text \<open>The \<open>try\<close> block of \<open>postMessage\<close> (lines 20-60). Its first statement logs the
  payload; the other call of the logger in the block (line 25) has a string as its only
  argument and cannot throw.\<close>

definition postMessageTry :: "env \<Rightarrow> jsval \<Rightarrow> firestore \<Rightarrow> (exn + postResult) \<times> firestore" where
  "postMessageTry e data s =
     (case loggerLog data of
        Inl err \<Rightarrow> (Inl err, s)
      | Inr logged \<Rightarrow>
      if nullish data then
        (Inl (TypeError (if data = JUndefined
           then ''Cannot destructure property 'userId' of 'data' as it is undefined.''
           else ''Cannot destructure property 'userId' of 'data' as it is null.'')), s)
      else
        let userId = getProp data ''userId'';
            text = getProp data ''text'';
            senderId = getProp data ''senderId'';
            chatId = getProp data ''chatId'' in
        if \<not> truthy text \<or> \<not> truthy senderId \<or> \<not> truthy userId then
          (Inl (HttpsError ''invalid-argument''
                 ''Required fields (text or ID's for sender or receiver) are missing'' None), s)
        else
          case (if \<not> truthy chatId then
                  (case doc (collection [] ''users'') userId of
                     Inl err \<Rightarrow> Inl err
                   | Inr u \<Rightarrow> Inr (JStr (docId (autoDoc (collection u ''chats'') (autoChatId e)))))
                else Inr chatId) of
            Inl err \<Rightarrow> (Inl err, s)
          | Inr newChatId \<Rightarrow>
              let messageData = \<lparr>senderId = senderId, msgText = text, timestamp = ServerTimestamp\<rparr> in
              (case messagesRef userId newChatId of
                 Inl err \<Rightarrow> (Inl err, s)
               | Inr coll \<Rightarrow>
                   (case add e coll messageData s of
                      (Inl err, s') \<Rightarrow> (Inl err, s')
                    | (Inr messageRef, s') \<Rightarrow>
                        (Inr \<lparr>status = ''new message'', chatId = newChatId,
                              messageId = docId messageRef\<rparr>, s'))))"

text \<open>The handler: whatever the \<open>try\<close> block throws is caught and thrown again as an
  \<open>HttpsError\<close> of code \<open>unknown\<close> carrying the message of the caught error
  (lines 61-69). The logger call of the \<open>catch\<close> is given an error object, which is not
  a plain object and is only formatted.\<close>

definition postMessage :: "env \<Rightarrow> jsval \<Rightarrow> firestore \<Rightarrow> (exn + postResult) \<times> firestore" where
  "postMessage e data s =
     (case postMessageTry e data s of
        (Inl error, s') \<Rightarrow>
          (Inl (HttpsError ''unknown'' ''An error occurred while adding the message''
                 (Some (message error))), s')
      | (Inr r, s') \<Rightarrow> (Inr r, s'))"

subsection \<open>\<open>getChat\<close>\<close>

text \<open>The request object that \<open>getChat\<close> and \<open>deleteChat\<close> log (lines 84 and 131) is
  no plain object either: logging it does not throw.\<close>

definition getChatTry :: "env \<Rightarrow> request \<Rightarrow> firestore \<Rightarrow> (exn + response) \<times> firestore" where
  "getChatTry e req s =
     (let userId = field (query req) ''userId'';
          chatId = field (query req) ''chatId'' in
      if \<not> truthy userId \<or> \<not> truthy chatId then
        (Inl (HttpsError ''invalid-argument''
               ''Required fields (ID's for user and chat) are missing'' None), s)
      else
        case messagesRef userId chatId of
          Inl err \<Rightarrow> (Inl err, s)
        | Inr coll \<Rightarrow>
            (case get e coll s of
               (Inl err, s') \<Rightarrow> (Inl err, s')
             | (Inr chatMessagesSnapshot, s') \<Rightarrow>
                 (let messages = map snd chatMessagesSnapshot in
                  (Inr \<lparr>httpStatus = 200,
                        json = ChatMessages ''successfully got chat messages'' messages\<rparr>, s'))))"

definition getChat :: "env \<Rightarrow> request \<Rightarrow> firestore \<Rightarrow> (exn + response) \<times> firestore" where
  "getChat e req s =
     (case getChatTry e req s of
        (Inl error, s') \<Rightarrow>
          (Inl (HttpsError ''unknown'' ''An error occurred while get a specific chat''
                 (Some (message error))), s')
      | (Inr r, s') \<Rightarrow> (Inr r, s'))"

subsection \<open>\<open>deleteChat\<close>\<close>

definition deleteChatTry :: "env \<Rightarrow> request \<Rightarrow> firestore \<Rightarrow> (exn + response) \<times> firestore" where
  "deleteChatTry e req s =
     (let userId = field (query req) ''userId'';
          chatId = field (query req) ''chatId'' in
      if \<not> truthy userId \<or> \<not> truthy chatId then
        (Inl (HttpsError ''invalid-argument''
               ''Required fields (ID's for user and chat) are missing'' None), s)
      else
        case messagesRef userId chatId of
          Inl err \<Rightarrow> (Inl err, s)
        | Inr coll \<Rightarrow>
            (case get e coll s of
               (Inl err, s') \<Rightarrow> (Inl err, s')
             | (Inr chatMessagesSnapshot, s') \<Rightarrow>
                 (let batch = map fst chatMessagesSnapshot in
                  case commit e batch s' of
                    (Inl err, s'') \<Rightarrow> (Inl err, s'')
                  | (Inr u, s'') \<Rightarrow>
                      (Inr \<lparr>httpStatus = 200,
                            json = StatusOnly ''successfully deleted chat messages''\<rparr>, s''))))"

definition deleteChat :: "env \<Rightarrow> request \<Rightarrow> firestore \<Rightarrow> (exn + response) \<times> firestore" where
  "deleteChat e req s =
     (case deleteChatTry e req s of
        (Inl error, s') \<Rightarrow>
          (Inl (HttpsError ''unknown'' ''An error occurred while deleted the messages''
                 (Some (message error))), s')
      | (Inr r, s') \<Rightarrow> (Inr r, s'))"

section \<open>Example inputs\<close>

text \<open>An invocation in which no call to the store is rejected and the client
  generates the chat identifier \<open>c1\<close>; a store without documents, one with two chats of
  user \<open>u\<close> and one in which the chat \<open>c1\<close> of user \<open>u\<close> already holds a message; a
  payload without a chat identifier and one with the number 1 as chat identifier; and
  a query for the chat \<open>c1\<close>.\<close>

definition exampleEnv :: env where
  "exampleEnv = \<lparr>autoChatId = ''c1'', autoMessageId = ''m1'', serverTime = 7,
     getFault = None, addFault = None, commitFault = None\<rparr>"

definition emptyStore :: firestore where
  "emptyStore = \<lparr>documents = [], calls = []\<rparr>"

definition examplePayload :: jsval where
  "examplePayload = JObj [(''userId'', JStr ''u''), (''text'', JStr ''hi''), (''senderId'', JStr ''bob'')]"

definition examplePayloadChat :: jsval where
  "examplePayloadChat = JObj [(''userId'', JStr ''u''), (''text'', JStr ''hi''),
     (''senderId'', JStr ''bob''), (''chatId'', JNum ''1'')]"

definition exampleMessage :: messageData where
  "exampleMessage = \<lparr>senderId = JStr ''bob'', msgText = JStr ''hi'', timestamp = At 7\<rparr>"

definition exampleQuery :: request where
  "exampleQuery = \<lparr>query = [(''userId'', JStr ''u''), (''chatId'', JStr ''c1'')]\<rparr>"

definition twoChatStore :: firestore where
  "twoChatStore = \<lparr>documents =
      [([''users'', ''u'', ''chats'', ''c1'', ''messages'', ''m1''], exampleMessage),
       ([''users'', ''u'', ''chats'', ''c1'', ''messages'', ''m2''], exampleMessage),
       ([''users'', ''u'', ''chats'', ''c2'', ''messages'', ''m3''], exampleMessage)],
     calls = []\<rparr>"


section \<open>Facts about references and the store\<close>


text \<open>Strings without a slash are single segments, so two different ones never share
  their segments.\<close>

lemma splitSlash_no_slash: "CHR ''/'' \<notin> set s \<Longrightarrow> splitSlash s = [s]"
  by (induction s) auto

lemma segments_no_slash:
  "CHR ''/'' \<notin> set s \<Longrightarrow> segments s = (if s = [] then [] else [s])"
  by (simp add: segments_def splitSlash_no_slash)

lemma segments_distinct_no_slash:
  assumes "CHR ''/'' \<notin> set a" "CHR ''/'' \<notin> set b" "a \<noteq> b"
  shows "segments a \<noteq> segments b"
  using assms by (auto simp: segments_no_slash)

lemma messagesRef_Inr:
  assumes "messagesRef uid cid = Inr coll"
  shows "\<exists>u c. uid = JStr u \<and> u \<noteq> [] \<and> toString cid = Inr c \<and> c \<noteq> [] \<and>
           coll = ''users'' # segments u @ ''chats'' # segments c @ [''messages'']"
proof -
  from assms obtain up cp where
    d1: "doc (collection [] ''users'') uid = Inr up" and
    ts: "toString cid = Inr cp" and
    d2: "doc (collection up ''chats'') (JStr cp) = Inr (butlast coll)" and
    co: "coll = collection (butlast coll) ''messages''"
    by (auto simp: messagesRef_def collection_def split: sum.splits)
  from d1 obtain u where u: "uid = JStr u" "u \<noteq> []" and up: "up = ''users'' # segments u"
    by (cases uid) (auto simp: doc_def collection_def Let_def split: sum.splits if_splits)
  from d2 have "butlast coll = up @ ''chats'' # segments cp" and "cp \<noteq> []"
    by (auto simp: doc_def collection_def Let_def split: sum.splits if_splits)
  with co up have "coll = ''users'' # segments u @ ''chats'' # segments cp @ [''messages'']"
    by (simp add: collection_def)
  with u ts \<open>cp \<noteq> []\<close> show ?thesis by blast
qed

lemma messagesRef_userId_truthy: "messagesRef uid cid = Inr coll \<Longrightarrow> truthy uid"
  by (auto dest: messagesRef_Inr)





lemma docsOf_removed:
  "docsOf (filter (\<lambda>d. fst d \<notin> set (map fst (docsOf ds coll))) ds) coll = []"
  by (auto simp: docsOf_def filter_empty_conv)

lemma docsOf_removed_image:
  "docsOf (filter (\<lambda>d. fst d \<notin> fst ` set (docsOf ds coll)) ds) coll = []"
  using docsOf_removed [of ds coll] by simp

lemma removed_eq:
  "filter (\<lambda>d. fst d \<notin> set (map fst (docsOf ds coll))) ds
     = filter (\<lambda>d. \<not> (fst d \<noteq> [] \<and> butlast (fst d) = coll)) ds"
  by (rule filter_cong) (auto simp: docsOf_def)


section \<open>Facts about the handlers\<close>

subsection \<open>\<open>postMessage\<close>\<close>

lemma postMessageTry_Inr:
  assumes "postMessageTry e data s = (Inr r, s')"
  shows "\<exists>coll. loggerLog data = Inr () \<and> \<not> nullish data
           \<and> truthy (getProp data ''text'') \<and> truthy (getProp data ''senderId'')
           \<and> truthy (getProp data ''userId'')
           \<and> chatId r = (if truthy (getProp data ''chatId'') then getProp data ''chatId''
                          else JStr (autoChatId e))
           \<and> messagesRef (getProp data ''userId'') (chatId r) = Inr coll
           \<and> status r = ''new message'' \<and> messageId r = autoMessageId e
           \<and> addFault e = None
           \<and> coll @ [autoMessageId e] \<notin> fst ` set (documents s)
           \<and> documents s' = documents s @ [(coll @ [autoMessageId e],
                \<lparr>senderId = getProp data ''senderId'', msgText = getProp data ''text'',
                 timestamp = At (serverTime e)\<rparr>)]
           \<and> calls s' = calls s @ [Add (coll @ [autoMessageId e])]"
  using assms
  by (auto simp: postMessageTry_def Let_def add_def autoDoc_def docId_def resolve_def
      split: if_splits sum.splits prod.splits option.splits)

lemma postMessage_Inr_iff:
  "postMessage e data s = (Inr r, s') \<longleftrightarrow> postMessageTry e data s = (Inr r, s')"
  by (auto simp: postMessage_def split: prod.splits sum.splits)

lemma postMessageTry_Inl_documents:
  assumes "postMessageTry e data s = (Inl x, s')"
  shows "documents s' = documents s"
  using assms
  by (auto simp: postMessageTry_def Let_def add_def
      split: if_splits sum.splits prod.splits option.splits)

lemma postMessage_Inl_documents:
  assumes "postMessage e data s = (Inl x, s')"
  shows "documents s' = documents s"
proof -
  from assms obtain y where "postMessageTry e data s = (Inl y, s')"
    by (auto simp: postMessage_def split: prod.splits sum.splits)
  then show ?thesis by (rule postMessageTry_Inl_documents)
qed


subsection \<open>\<open>getChat\<close>\<close>

lemma getChatTry_documents: "documents (snd (getChatTry e req s)) = documents s"
  by (auto simp: getChatTry_def Let_def get_def split: sum.splits prod.splits option.splits)

lemma getChatTry_ok:
  assumes "truthy (field (query req) ''userId'')" "truthy (field (query req) ''chatId'')"
    and "messagesRef (field (query req) ''userId'') (field (query req) ''chatId'') = Inr coll"
    and "getFault e = None"
  shows "getChatTry e req s =
     (Inr \<lparr>httpStatus = 200,
           json = ChatMessages ''successfully got chat messages'' (map snd (docsOf (documents s) coll))\<rparr>,
      s\<lparr>calls := calls s @ [Get coll]\<rparr>)"
  using assms by (simp add: getChatTry_def Let_def get_def)

lemma getChat_Try_ok:
  assumes "truthy (field (query req) ''userId'')" "truthy (field (query req) ''chatId'')"
    and "messagesRef (field (query req) ''userId'') (field (query req) ''chatId'') = Inr coll"
    and "getFault e = None"
  shows "getChat e req s =
     (Inr \<lparr>httpStatus = 200,
           json = ChatMessages ''successfully got chat messages'' (map snd (docsOf (documents s) coll))\<rparr>,
      s\<lparr>calls := calls s @ [Get coll]\<rparr>)"
  using getChatTry_ok [OF assms] by (simp add: getChat_def)

lemma getChat_fst_cong:
  assumes "\<And>coll. messagesRef (field (query req) ''userId'') (field (query req) ''chatId'') = Inr coll
             \<Longrightarrow> docsOf (documents s1) coll = docsOf (documents s2) coll"
  shows "fst (getChat e req s1) = fst (getChat e req s2)"
  using assms
  by (auto simp: getChat_def getChatTry_def Let_def get_def
      split: sum.splits prod.splits option.splits if_splits)

subsection \<open>\<open>deleteChat\<close>\<close>

lemma deleteChatTry_Inr:
  assumes "deleteChatTry e req s = (Inr r, s')"
  shows "\<exists>coll. truthy (field (query req) ''userId'') \<and> truthy (field (query req) ''chatId'')
     \<and> messagesRef (field (query req) ''userId'') (field (query req) ''chatId'') = Inr coll
     \<and> getFault e = None \<and> commitFault e = None
     \<and> r = \<lparr>httpStatus = 200, json = StatusOnly ''successfully deleted chat messages''\<rparr>
     \<and> calls s' = calls s @ [Get coll, Commit (map fst (docsOf (documents s) coll))]
     \<and> documents s' = filter (\<lambda>d. fst d \<notin> set (map fst (docsOf (documents s) coll))) (documents s)"
  using assms
  by (auto simp: deleteChatTry_def Let_def get_def commit_def
      split: if_splits sum.splits prod.splits option.splits)

lemma deleteChatTry_ok:
  assumes "truthy (field (query req) ''userId'')" "truthy (field (query req) ''chatId'')"
    and "messagesRef (field (query req) ''userId'') (field (query req) ''chatId'') = Inr coll"
    and "getFault e = None" "commitFault e = None"
  shows "deleteChatTry e req s =
     (Inr \<lparr>httpStatus = 200, json = StatusOnly ''successfully deleted chat messages''\<rparr>,
      s\<lparr>calls := calls s @ [Get coll, Commit (map fst (docsOf (documents s) coll))],
        documents := filter (\<lambda>d. fst d \<notin> set (map fst (docsOf (documents s) coll))) (documents s)\<rparr>)"
  using assms by (simp add: deleteChatTry_def Let_def get_def commit_def)

lemma deleteChat_Inr_iff:
  "deleteChat e req s = (Inr r, s') \<longleftrightarrow> deleteChatTry e req s = (Inr r, s')"
  by (auto simp: deleteChat_def split: prod.splits sum.splits)

lemma deleteChat_ok:
  assumes "truthy (field (query req) ''userId'')" "truthy (field (query req) ''chatId'')"
    and "messagesRef (field (query req) ''userId'') (field (query req) ''chatId'') = Inr coll"
    and "getFault e = None" "commitFault e = None"
  shows "deleteChat e req s =
     (Inr \<lparr>httpStatus = 200, json = StatusOnly ''successfully deleted chat messages''\<rparr>,
      s\<lparr>calls := calls s @ [Get coll, Commit (map fst (docsOf (documents s) coll))],
        documents := filter (\<lambda>d. fst d \<notin> set (map fst (docsOf (documents s) coll))) (documents s)\<rparr>)"
  using deleteChatTry_ok [OF assms] by (simp add: deleteChat_def)

lemma deleteChat_empty:
  assumes t1: "truthy (field (query req) ''userId'')" and t2: "truthy (field (query req) ''chatId'')"
    and ref: "messagesRef (field (query req) ''userId'') (field (query req) ''chatId'') = Inr coll"
    and empty: "docsOf (documents s) coll = []"
    and ok: "getFault e = None" "commitFault e = None"
  shows "deleteChat e req s =
     (Inr \<lparr>httpStatus = 200, json = StatusOnly ''successfully deleted chat messages''\<rparr>,
      s\<lparr>calls := calls s @ [Get coll, Commit []]\<rparr>)"
  using deleteChatTry_ok [OF t1 t2 ref ok, of s] empty
  by (simp add: deleteChat_def)

subsection \<open>The handlers on the example inputs\<close>

lemma post_example:
  "postMessage exampleEnv examplePayload emptyStore =
     (Inr \<lparr>status = ''new message'', chatId = JStr ''c1'', messageId = ''m1''\<rparr>,
      \<lparr>documents = [([''users'', ''u'', ''chats'', ''c1'', ''messages'', ''m1''], exampleMessage)],
       calls = [Add [''users'', ''u'', ''chats'', ''c1'', ''messages'', ''m1'']]\<rparr>)"
  by (simp add: postMessage_def postMessageTry_def exampleEnv_def examplePayload_def emptyStore_def
      exampleMessage_def field_def doc_def collection_def segments_def messagesRef_def add_def
      autoDoc_def docId_def resolve_def Let_def loggerLog_def)

lemma post_example_chat:
  "postMessage exampleEnv examplePayloadChat emptyStore =
     (Inr \<lparr>status = ''new message'', chatId = JNum ''1'', messageId = ''m1''\<rparr>,
      \<lparr>documents = [([''users'', ''u'', ''chats'', ''1'', ''messages'', ''m1''], exampleMessage)],
       calls = [Add [''users'', ''u'', ''chats'', ''1'', ''messages'', ''m1'']]\<rparr>)"
  by (simp add: postMessage_def postMessageTry_def exampleEnv_def examplePayloadChat_def emptyStore_def
      exampleMessage_def field_def doc_def collection_def segments_def messagesRef_def add_def
      autoDoc_def docId_def resolve_def Let_def loggerLog_def)

lemma example_ref:
  "messagesRef (JStr ''u'') (JStr ''c1'') = Inr [''users'', ''u'', ''chats'', ''c1'', ''messages'']"
  by (simp add: messagesRef_def doc_def collection_def segments_def)

lemma exampleQuery_fields:
  "field (query exampleQuery) ''userId'' = JStr ''u''"
  "field (query exampleQuery) ''chatId'' = JStr ''c1''"
  by (simp_all add: exampleQuery_def field_def)

lemma delete_example:
  "deleteChat exampleEnv exampleQuery twoChatStore =
     (Inr \<lparr>httpStatus = 200, json = StatusOnly ''successfully deleted chat messages''\<rparr>,
      \<lparr>documents = [([''users'', ''u'', ''chats'', ''c2'', ''messages'', ''m3''], exampleMessage)],
       calls = [Get [''users'', ''u'', ''chats'', ''c1'', ''messages''],
                Commit [[''users'', ''u'', ''chats'', ''c1'', ''messages'', ''m1''],
                        [''users'', ''u'', ''chats'', ''c1'', ''messages'', ''m2'']]]\<rparr>)"
  by (simp add: deleteChat_def deleteChatTry_def exampleQuery_fields example_ref get_def commit_def
      docsOf_def twoChatStore_def exampleEnv_def Let_def)

section \<open>The claims\<close>

text \<open>
  Claim C1. For an input object in which \<open>text\<close>, \<open>senderId\<close> or \<open>userId\<close> is missing
  or falsy, \<open>postMessage\<close> fails and leaves the store untouched: no document is
  written and no call reaches the store. The error the caller receives has the code
  \<open>unknown\<close>, not \<open>invalid-argument\<close>: the \<open>invalid-argument\<close> error of line 27 is
  thrown inside the \<open>try\<close> block and the \<open>catch\<close> of line 61 replaces it, keeping only
  its message as detail. (When the logger of line 20 throws on the payload, the detail
  is the message of that error instead.)
\<close>

theorem postMessage_missing_field_unknown:
  assumes "\<not> nullish data"
    and "\<not> truthy (getProp data ''text'') \<or> \<not> truthy (getProp data ''senderId'')
         \<or> \<not> truthy (getProp data ''userId'')"
  shows "postMessage e data s =
     (Inl (HttpsError ''unknown'' ''An error occurred while adding the message''
        (Some (case loggerLog data of
                 Inl err \<Rightarrow> message err
               | Inr logged \<Rightarrow>
                   ''Required fields (text or ID's for sender or receiver) are missing''))), s)"
  using assms
  by (auto simp: postMessage_def postMessageTry_def Let_def split: sum.splits)

theorem postMessage_missing_field_unknown_witness:
  "postMessage exampleEnv (JObj [(''userId'', JStr ''u''), (''text'', JStr ''''), (''senderId'', JStr ''bob'')]) emptyStore =
     (Inl (HttpsError ''unknown'' ''An error occurred while adding the message''
        (Some ''Required fields (text or ID's for sender or receiver) are missing'')), emptyStore)"
  using postMessage_missing_field_unknown [of "JObj [(''userId'', JStr ''u''), (''text'', JStr ''''), (''senderId'', JStr ''bob'')]" exampleEnv emptyStore]
  by (simp add: field_def loggerLog_def)

text \<open>
  Claim C2. A \<open>getChat\<close> or \<open>deleteChat\<close> call whose query lacks \<open>userId\<close> or
  \<open>chatId\<close> (or holds a falsy one) fails without reading or writing the store. As in
  \<open>postMessage\<close>, the \<open>catch\<close> of the handler turns the \<open>invalid-argument\<close> error into
  one of code \<open>unknown\<close>.
\<close>

theorem getChat_deleteChat_missing_param_unknown:
  assumes "\<not> truthy (field (query req) ''userId'') \<or> \<not> truthy (field (query req) ''chatId'')"
  shows "getChat e req s =
     (Inl (HttpsError ''unknown'' ''An error occurred while get a specific chat''
        (Some ''Required fields (ID's for user and chat) are missing'')), s)
   \<and> deleteChat e req s =
     (Inl (HttpsError ''unknown'' ''An error occurred while deleted the messages''
        (Some ''Required fields (ID's for user and chat) are missing'')), s)"
  using assms
  by (auto simp: getChat_def getChatTry_def deleteChat_def deleteChatTry_def Let_def)

theorem getChat_deleteChat_missing_param_unknown_witness:
  "getChat exampleEnv \<lparr>query = [(''userId'', JStr ''u'')]\<rparr> emptyStore =
     (Inl (HttpsError ''unknown'' ''An error occurred while get a specific chat''
        (Some ''Required fields (ID's for user and chat) are missing'')), emptyStore)
   \<and> deleteChat exampleEnv \<lparr>query = [(''userId'', JStr ''u'')]\<rparr> emptyStore =
     (Inl (HttpsError ''unknown'' ''An error occurred while deleted the messages''
        (Some ''Required fields (ID's for user and chat) are missing'')), emptyStore)"
  using getChat_deleteChat_missing_param_unknown
    [of "\<lparr>query = [(''userId'', JStr ''u'')]\<rparr>" exampleEnv emptyStore]
  by (simp add: field_def)

text \<open>
  Claim C3. A successful \<open>postMessage\<close> (which requires truthy \<open>userId\<close>, \<open>text\<close> and
  \<open>senderId\<close>) writes exactly one document, one that did not exist, at
  \<open>users/{userId}/chats/{chatId}/messages/{messageId}\<close> with the fields \<open>senderId\<close> and
  \<open>text\<close> of the input and the time of the server; nothing else in the store changes
  and the only call is this \<open>add\<close>. It returns the status \<open>new message\<close>, the chat
  identifier (the one given, or the generated one) and as \<open>messageId\<close> the identifier
  of the document written.
\<close>

theorem postMessage_writes_one_document:
  assumes "postMessage e data s = (Inr r, s')"
  shows "\<exists>u c. getProp data ''userId'' = JStr u \<and> toString (chatId r) = Inr c
     \<and> ''users'' # segments u @ ''chats'' # segments c @ [''messages'', messageId r]
          \<notin> fst ` set (documents s)
     \<and> documents s' = documents s @
          [(''users'' # segments u @ ''chats'' # segments c @ [''messages'', messageId r],
            \<lparr>senderId = getProp data ''senderId'', msgText = getProp data ''text'',
             timestamp = At (serverTime e)\<rparr>)]
     \<and> calls s' = calls s @
          [Add (''users'' # segments u @ ''chats'' # segments c @ [''messages'', messageId r])]
     \<and> status r = ''new message''
     \<and> chatId r = (if truthy (getProp data ''chatId'') then getProp data ''chatId''
                    else JStr (autoChatId e))"
proof -
  from assms have "postMessageTry e data s = (Inr r, s')"
    by (simp add: postMessage_Inr_iff)
  from postMessageTry_Inr [OF this] obtain coll where
    ref: "messagesRef (getProp data ''userId'') (chatId r) = Inr coll" and
    rest: "status r = ''new message''" "messageId r = autoMessageId e"
      "coll @ [autoMessageId e] \<notin> fst ` set (documents s)"
      "documents s' = documents s @ [(coll @ [autoMessageId e],
                \<lparr>senderId = getProp data ''senderId'', msgText = getProp data ''text'',
                 timestamp = At (serverTime e)\<rparr>)]"
      "calls s' = calls s @ [Add (coll @ [autoMessageId e])]"
      "chatId r = (if truthy (getProp data ''chatId'') then getProp data ''chatId''
                          else JStr (autoChatId e))"
    by blast
  from messagesRef_Inr [OF ref] obtain u c where
    uc: "getProp data ''userId'' = JStr u" "toString (chatId r) = Inr c"
      "coll = ''users'' # segments u @ ''chats'' # segments c @ [''messages'']"
    by blast
  from uc(3) rest(2) have
    "coll @ [autoMessageId e] = ''users'' # segments u @ ''chats'' # segments c @ [''messages'', messageId r]"
    by simp
  with uc(1,2) rest show ?thesis by (intro exI [of _ u] exI [of _ c]) simp
qed

theorem postMessage_writes_one_document_witness:
  "documents (snd (postMessage exampleEnv examplePayload emptyStore)) =
     [([''users'', ''u'', ''chats'', ''c1'', ''messages'', ''m1''],
        \<lparr>senderId = JStr ''bob'', msgText = JStr ''hi'', timestamp = At 7\<rparr>)]
   \<and> fst (postMessage exampleEnv examplePayload emptyStore) =
       Inr \<lparr>status = ''new message'', chatId = JStr ''c1'', messageId = ''m1''\<rparr>"
  using postMessage_writes_one_document [OF post_example]
  by (simp add: post_example exampleMessage_def)




text \<open>
  Claim C5. A successful \<open>deleteChat\<close> on a chat of N messages answers 200 with the
  status \<open>successfully deleted chat messages\<close>, after one read of the collection and one
  commit of a batch holding the N deletions; the documents left are those outside the
  collection, and a \<open>getChat\<close> that follows on the same \<open>userId\<close> and \<open>chatId\<close> (its read
  not rejected) answers 200 with an empty list of messages.
\<close>

theorem deleteChat_removes_all:
  assumes del: "deleteChat e req s = (Inr r, s')"
    and ok: "getFault e' = None"
  shows "\<exists>coll. messagesRef (field (query req) ''userId'') (field (query req) ''chatId'') = Inr coll
     \<and> r = \<lparr>httpStatus = 200, json = StatusOnly ''successfully deleted chat messages''\<rparr>
     \<and> calls s' = calls s @ [Get coll, Commit (map fst (docsOf (documents s) coll))]
     \<and> documents s' = filter (\<lambda>d. \<not> (fst d \<noteq> [] \<and> butlast (fst d) = coll)) (documents s)
     \<and> docsOf (documents s') coll = []
     \<and> getChat e' req s' =
         (Inr \<lparr>httpStatus = 200, json = ChatMessages ''successfully got chat messages'' []\<rparr>,
          s'\<lparr>calls := calls s' @ [Get coll]\<rparr>)"
proof -
  from del have "deleteChatTry e req s = (Inr r, s')"
    by (simp add: deleteChat_Inr_iff)
  from deleteChatTry_Inr [OF this] obtain coll where
    t1: "truthy (field (query req) ''userId'')" and
    t2: "truthy (field (query req) ''chatId'')" and
    ref: "messagesRef (field (query req) ''userId'') (field (query req) ''chatId'') = Inr coll" and
    r: "r = \<lparr>httpStatus = 200, json = StatusOnly ''successfully deleted chat messages''\<rparr>" and
    cs: "calls s' = calls s @ [Get coll, Commit (map fst (docsOf (documents s) coll))]" and
    ds: "documents s' = filter (\<lambda>d. fst d \<notin> set (map fst (docsOf (documents s) coll))) (documents s)"
    by blast
  from ds have gone: "docsOf (documents s') coll = []"
    by (simp only: docsOf_removed)
  from ds have ds': "documents s' = filter (\<lambda>d. \<not> (fst d \<noteq> [] \<and> butlast (fst d) = coll)) (documents s)"
    by (simp only: removed_eq)
  from getChat_Try_ok [OF t1 t2 ref ok, of s'] gone
  have "getChat e' req s' =
         (Inr \<lparr>httpStatus = 200, json = ChatMessages ''successfully got chat messages'' []\<rparr>,
          s'\<lparr>calls := calls s' @ [Get coll]\<rparr>)"
    by simp
  with ref r cs ds' gone show ?thesis by blast
qed

theorem deleteChat_removes_all_witness:
  "fst (getChat exampleEnv exampleQuery (snd (deleteChat exampleEnv exampleQuery twoChatStore))) =
     Inr \<lparr>httpStatus = 200, json = ChatMessages ''successfully got chat messages'' []\<rparr>
   \<and> documents (snd (deleteChat exampleEnv exampleQuery twoChatStore)) =
       [([''users'', ''u'', ''chats'', ''c2'', ''messages'', ''m3''], exampleMessage)]"
proof -
  have ok: "getFault exampleEnv = None"
    by (simp add: exampleEnv_def)
  from deleteChat_removes_all [OF delete_example ok]
  show ?thesis
    by (auto simp: delete_example)
qed

text \<open>
  Claim C6. For a \<open>userId\<close> and \<open>chatId\<close> the store accepts, and as long as the store
  rejects no call, \<open>deleteChat\<close> called twice in succession succeeds both times, the
  second call committing an empty batch and changing no document; and on a chat whose
  message collection is empty (or was never written) a single call succeeds with an
  empty batch.
\<close>

theorem deleteChat_idempotent:
  assumes t2: "truthy (field (query req) ''chatId'')"
    and ref: "messagesRef (field (query req) ''userId'') (field (query req) ''chatId'') = Inr coll"
    and ok1: "getFault e1 = None" "commitFault e1 = None"
    and ok2: "getFault e2 = None" "commitFault e2 = None"
  shows "(\<exists>s1. deleteChat e1 req s =
            (Inr \<lparr>httpStatus = 200, json = StatusOnly ''successfully deleted chat messages''\<rparr>, s1)
          \<and> deleteChat e2 req s1 =
            (Inr \<lparr>httpStatus = 200, json = StatusOnly ''successfully deleted chat messages''\<rparr>,
             s1\<lparr>calls := calls s1 @ [Get coll, Commit []]\<rparr>))
       \<and> (docsOf (documents s) coll = [] \<longrightarrow>
            deleteChat e1 req s =
              (Inr \<lparr>httpStatus = 200, json = StatusOnly ''successfully deleted chat messages''\<rparr>,
               s\<lparr>calls := calls s @ [Get coll, Commit []]\<rparr>))"
proof (intro conjI impI)
  from ref have t1: "truthy (field (query req) ''userId'')"
    by (rule messagesRef_userId_truthy)
  let ?s1 = "s\<lparr>calls := calls s @ [Get coll, Commit (map fst (docsOf (documents s) coll))],
        documents := filter (\<lambda>d. fst d \<notin> set (map fst (docsOf (documents s) coll))) (documents s)\<rparr>"
  have first: "deleteChat e1 req s =
     (Inr \<lparr>httpStatus = 200, json = StatusOnly ''successfully deleted chat messages''\<rparr>, ?s1)"
    by (rule deleteChat_ok [OF t1 t2 ref ok1])
  have "docsOf (documents ?s1) coll = []"
    by (simp add: docsOf_removed_image)
  from deleteChat_empty [OF t1 t2 ref this ok2] first
  show "\<exists>s1. deleteChat e1 req s =
            (Inr \<lparr>httpStatus = 200, json = StatusOnly ''successfully deleted chat messages''\<rparr>, s1)
          \<and> deleteChat e2 req s1 =
            (Inr \<lparr>httpStatus = 200, json = StatusOnly ''successfully deleted chat messages''\<rparr>,
             s1\<lparr>calls := calls s1 @ [Get coll, Commit []]\<rparr>)"
    by blast
  assume "docsOf (documents s) coll = []"
  from deleteChat_empty [OF t1 t2 ref this ok1]
  show "deleteChat e1 req s =
              (Inr \<lparr>httpStatus = 200, json = StatusOnly ''successfully deleted chat messages''\<rparr>,
               s\<lparr>calls := calls s @ [Get coll, Commit []]\<rparr>)" .
qed

theorem deleteChat_idempotent_witness:
  "fst (deleteChat exampleEnv exampleQuery (snd (deleteChat exampleEnv exampleQuery twoChatStore))) =
     Inr \<lparr>httpStatus = 200, json = StatusOnly ''successfully deleted chat messages''\<rparr>
   \<and> documents (snd (deleteChat exampleEnv exampleQuery
         (snd (deleteChat exampleEnv exampleQuery twoChatStore)))) =
       [([''users'', ''u'', ''chats'', ''c2'', ''messages'', ''m3''], exampleMessage)]"
proof -
  have ok: "getFault exampleEnv = None" "commitFault exampleEnv = None"
    by (simp_all add: exampleEnv_def)
  have t2: "truthy (field (query exampleQuery) ''chatId'')"
    by (simp add: exampleQuery_fields)
  have ref: "messagesRef (field (query exampleQuery) ''userId'') (field (query exampleQuery) ''chatId'') =
      Inr [''users'', ''u'', ''chats'', ''c1'', ''messages'']"
    by (simp add: exampleQuery_fields example_ref)
  from deleteChat_idempotent [OF t2 ref ok ok, of twoChatStore]
  show ?thesis
    by (auto simp: delete_example)
qed

text \<open>
  Claim C7. \<open>getChat\<close> has no side effect: whatever the request, and whether the call
  succeeds or fails, the documents of the store are the same after it as before; a
  retry gives the same answer.
\<close>

theorem getChat_read_only:
  "documents (snd (getChat e req s)) = documents s
   \<and> fst (getChat e req (snd (getChat e req s))) = fst (getChat e req s)"
proof -
  have d: "documents (snd (getChat e req s)) = documents s"
    using getChatTry_documents [of e req s]
    by (auto simp: getChat_def split: prod.splits sum.splits)
  then have "fst (getChat e req (snd (getChat e req s))) = fst (getChat e req s)"
    by (intro getChat_fst_cong) simp
  with d show ?thesis by simp
qed

theorem getChat_read_only_witness:
  "documents (snd (getChat exampleEnv exampleQuery twoChatStore)) = documents twoChatStore
   \<and> fst (getChat exampleEnv exampleQuery (snd (getChat exampleEnv exampleQuery twoChatStore))) =
       fst (getChat exampleEnv exampleQuery twoChatStore)"
  using getChat_read_only [of exampleEnv exampleQuery twoChatStore] .

text \<open>
  Claim C8, as stated, fails: two distinct chat identifiers can name the same
  collection, since the store client splits a path at \<open>/\<close> and drops empty segments. A
  message posted under \<open>c1\<close> is returned by \<open>getChat\<close> for \<open>c1/\<close>; it was not there
  before.
\<close>

theorem chat_isolation_counterexample:
  "JStr ''c1'' \<noteq> JStr ''c1/''
   \<and> fst (getChat exampleEnv \<lparr>query = [(''userId'', JStr ''u''), (''chatId'', JStr ''c1/'')]\<rparr> emptyStore) =
       Inr \<lparr>httpStatus = 200, json = ChatMessages ''successfully got chat messages'' []\<rparr>
   \<and> fst (getChat exampleEnv \<lparr>query = [(''userId'', JStr ''u''), (''chatId'', JStr ''c1/'')]\<rparr>
        (snd (postMessage exampleEnv
           (JObj [(''userId'', JStr ''u''), (''text'', JStr ''hi''), (''senderId'', JStr ''bob''),
                  (''chatId'', JStr ''c1'')]) emptyStore))) =
       Inr \<lparr>httpStatus = 200, json = ChatMessages ''successfully got chat messages''
             [\<lparr>senderId = JStr ''bob'', msgText = JStr ''hi'', timestamp = At 7\<rparr>]\<rparr>"
proof -
  have ref: "messagesRef (JStr ''u'') (JStr ''c1/'') = Inr [''users'', ''u'', ''chats'', ''c1'', ''messages'']"
    by (simp add: messagesRef_def doc_def collection_def segments_def)
  have ok: "getFault exampleEnv = None"
    by (simp add: exampleEnv_def)
  have get: "fst (getChat exampleEnv \<lparr>query = [(''userId'', JStr ''u''), (''chatId'', JStr ''c1/'')]\<rparr> s) =
      Inr \<lparr>httpStatus = 200, json = ChatMessages ''successfully got chat messages''
            (map snd (docsOf (documents s) [''users'', ''u'', ''chats'', ''c1'', ''messages'']))\<rparr>" for s
    by (simp add: getChat_def getChatTry_def field_def ref get_def ok Let_def)
  have before: "docsOf (documents emptyStore) [''users'', ''u'', ''chats'', ''c1'', ''messages''] = []"
    by (simp add: docsOf_def emptyStore_def)
  have post: "postMessage exampleEnv
           (JObj [(''userId'', JStr ''u''), (''text'', JStr ''hi''), (''senderId'', JStr ''bob''),
                  (''chatId'', JStr ''c1'')]) emptyStore =
      (Inr \<lparr>status = ''new message'', chatId = JStr ''c1'', messageId = ''m1''\<rparr>,
       \<lparr>documents = [([''users'', ''u'', ''chats'', ''c1'', ''messages'', ''m1''], exampleMessage)],
        calls = [Add [''users'', ''u'', ''chats'', ''c1'', ''messages'', ''m1'']]\<rparr>)"
    by (simp add: postMessage_def postMessageTry_def exampleEnv_def emptyStore_def
        exampleMessage_def field_def doc_def collection_def segments_def messagesRef_def add_def
        autoDoc_def docId_def resolve_def Let_def loggerLog_def)
  have after: "docsOf (documents (snd (postMessage exampleEnv
           (JObj [(''userId'', JStr ''u''), (''text'', JStr ''hi''), (''senderId'', JStr ''bob''),
                  (''chatId'', JStr ''c1'')]) emptyStore))) [''users'', ''u'', ''chats'', ''c1'', ''messages''] =
      [([''users'', ''u'', ''chats'', ''c1'', ''messages'', ''m1''], exampleMessage)]"
    by (simp add: post docsOf_def)
  show ?thesis
    by (simp add: get before after exampleMessage_def)
qed

text \<open>
  Claim C8, amended. Under one \<open>userId\<close>, when the string forms \<open>toString()\<close> of the
  chat identifiers A (truthy, given to \<open>postMessage\<close>) and B (given to \<open>getChat\<close>) have
  different path segments, in particular when they are two different strings without a
  slash, posting under A changes nothing in what \<open>getChat\<close> returns for B: the message
  created never appears there.
\<close>

theorem chat_isolation:
  assumes A: "getProp data ''chatId'' = A" and tA: "truthy A"
    and quser: "field (query req) ''userId'' = getProp data ''userId''"
    and B: "field (query req) ''chatId'' = B"
    and sA: "toString A = Inr a" and sB: "toString B = Inr b"
    and ne: "segments a \<noteq> segments b"
  shows "fst (getChat e' req (snd (postMessage e data s))) = fst (getChat e' req s)"
proof (cases "postMessage e data s")
  case (Pair res s')
  show ?thesis
  proof (cases res)
    case (Inl x)
    with Pair have "documents s' = documents s"
      by (simp add: postMessage_Inl_documents)
    then have "fst (getChat e' req s') = fst (getChat e' req s)"
      by (intro getChat_fst_cong) simp
    with Pair show ?thesis by simp
  next
    case (Inr r)
    with Pair have "postMessageTry e data s = (Inr r, s')"
      by (simp add: postMessage_Inr_iff)
    from postMessageTry_Inr [OF this] A tA obtain collA where
      refA: "messagesRef (getProp data ''userId'') A = Inr collA" and
      docs: "documents s' = documents s @ [(collA @ [autoMessageId e],
                \<lparr>senderId = getProp data ''senderId'', msgText = getProp data ''text'',
                 timestamp = At (serverTime e)\<rparr>)]"
      by auto
    from messagesRef_Inr [OF refA] sA obtain u where
      u: "getProp data ''userId'' = JStr u" and
      cA: "collA = ''users'' # segments u @ ''chats'' # segments a @ [''messages'']"
      by auto
    have "docsOf (documents s') collB = docsOf (documents s) collB"
      if refB: "messagesRef (field (query req) ''userId'') (field (query req) ''chatId'') = Inr collB"
      for collB
    proof -
      from messagesRef_Inr [OF refB] quser B u sB
      have cB: "collB = ''users'' # segments u @ ''chats'' # segments b @ [''messages'']"
        by auto
      with cA ne have "collA \<noteq> collB" by simp
      with docs show ?thesis
        by (simp add: docsOf_def)
    qed
    then have "fst (getChat e' req s') = fst (getChat e' req s)"
      by (rule getChat_fst_cong)
    with Pair show ?thesis by simp
  qed
qed

theorem chat_isolation_witness:
  "fst (getChat exampleEnv \<lparr>query = [(''userId'', JStr ''u''), (''chatId'', JStr ''c2'')]\<rparr>
        (snd (postMessage exampleEnv examplePayloadChat emptyStore))) =
   fst (getChat exampleEnv \<lparr>query = [(''userId'', JStr ''u''), (''chatId'', JStr ''c2'')]\<rparr> emptyStore)"
proof -
  have A: "getProp examplePayloadChat ''chatId'' = JNum ''1''"
    by (simp add: examplePayloadChat_def field_def)
  have tA: "truthy (JNum ''1'')" by simp
  have quser: "field (query \<lparr>query = [(''userId'', JStr ''u''), (''chatId'', JStr ''c2'')]\<rparr>) ''userId'' =
      getProp examplePayloadChat ''userId''"
    by (simp add: examplePayloadChat_def field_def)
  have B: "field (query \<lparr>query = [(''userId'', JStr ''u''), (''chatId'', JStr ''c2'')]\<rparr>) ''chatId'' =
      JStr ''c2''"
    by (simp add: field_def)
  have sA: "toString (JNum ''1'') = Inr ''1''" by simp
  have sB: "toString (JStr ''c2'') = Inr ''c2''" by simp
  have ne: "segments ''1'' \<noteq> segments ''c2''"
    by (simp add: segments_def)
  from chat_isolation [OF A tA quser B sA sB ne]
  show ?thesis .
qed

text \<open>
  Claim C9. A \<open>userId\<close> or \<open>chatId\<close> that is present in the query but is the empty
  string is rejected by the same branch as a missing one (the test is \<open>!userId || !chatId\<close>,
  on truthiness), before any call to the store: the \<open>try\<close> block throws the
  \<open>invalid-argument\<close> error with the store unchanged, and block and handler answer
  exactly as they do for a query without parameters.
\<close>

theorem empty_param_rejected_as_missing:
  assumes "map_of (query req) ''userId'' = Some (JStr '''') \<or> map_of (query req) ''chatId'' = Some (JStr '''')"
  shows "getChatTry e req s =
           (Inl (HttpsError ''invalid-argument''
                  ''Required fields (ID's for user and chat) are missing'' None), s)
       \<and> deleteChatTry e req s =
           (Inl (HttpsError ''invalid-argument''
                  ''Required fields (ID's for user and chat) are missing'' None), s)
       \<and> getChatTry e req s = getChatTry e \<lparr>query = []\<rparr> s
       \<and> deleteChatTry e req s = deleteChatTry e \<lparr>query = []\<rparr> s
       \<and> getChat e req s = getChat e \<lparr>query = []\<rparr> s
       \<and> deleteChat e req s = deleteChat e \<lparr>query = []\<rparr> s"
  using assms
  by (auto simp: getChat_def getChatTry_def deleteChat_def deleteChatTry_def Let_def field_def)

theorem empty_param_rejected_as_missing_witness:
  "getChatTry exampleEnv \<lparr>query = [(''userId'', JStr ''u''), (''chatId'', JStr '''')]\<rparr> emptyStore =
     (Inl (HttpsError ''invalid-argument''
            ''Required fields (ID's for user and chat) are missing'' None), emptyStore)
   \<and> deleteChat exampleEnv \<lparr>query = [(''userId'', JStr ''u''), (''chatId'', JStr '''')]\<rparr> emptyStore =
       deleteChat exampleEnv \<lparr>query = []\<rparr> emptyStore"
  using empty_param_rejected_as_missing
    [of "\<lparr>query = [(''userId'', JStr ''u''), (''chatId'', JStr '''')]\<rparr>" exampleEnv emptyStore]
  by simp

text \<open>
  Claim C10. When the input holds a truthy \<open>chatId\<close>, a successful \<open>postMessage\<close>
  returns that very value as \<open>chatId\<close>, while the document it writes lies under the
  segments of \<open>chatId.toString()\<close>.
\<close>

theorem postMessage_returns_chatId_unchanged:
  assumes "truthy (getProp data ''chatId'')"
    and "postMessage e data s = (Inr r, s')"
  shows "chatId r = getProp data ''chatId''
     \<and> (\<exists>u c. getProp data ''userId'' = JStr u \<and> toString (getProp data ''chatId'') = Inr c
           \<and> map fst (documents s') = map fst (documents s) @
               [''users'' # segments u @ ''chats'' # segments c @ [''messages'', messageId r]])"
proof -
  from assms(2) have "postMessageTry e data s = (Inr r, s')"
    by (simp add: postMessage_Inr_iff)
  from postMessageTry_Inr [OF this] obtain coll where
    ref: "messagesRef (getProp data ''userId'') (chatId r) = Inr coll" and
    rest: "messageId r = autoMessageId e"
      "documents s' = documents s @ [(coll @ [autoMessageId e],
                \<lparr>senderId = getProp data ''senderId'', msgText = getProp data ''text'',
                 timestamp = At (serverTime e)\<rparr>)]"
      "chatId r = (if truthy (getProp data ''chatId'') then getProp data ''chatId''
                          else JStr (autoChatId e))"
    by blast
  from rest(3) assms(1) have same: "chatId r = getProp data ''chatId''" by simp
  from messagesRef_Inr [OF ref] same obtain u c where
    uc: "getProp data ''userId'' = JStr u" "toString (getProp data ''chatId'') = Inr c"
      "coll = ''users'' # segments u @ ''chats'' # segments c @ [''messages'']"
    by auto
  from uc(3) rest(1,2) have
    "map fst (documents s') = map fst (documents s) @
       [''users'' # segments u @ ''chats'' # segments c @ [''messages'', messageId r]]"
    by simp
  with uc(1,2) same show ?thesis by blast
qed

theorem postMessage_returns_chatId_unchanged_witness:
  "truthy (getProp examplePayloadChat ''chatId'')
   \<and> chatId (projr (fst (postMessage exampleEnv examplePayloadChat emptyStore))) = JNum ''1''
   \<and> map fst (documents (snd (postMessage exampleEnv examplePayloadChat emptyStore))) =
       [[''users'', ''u'', ''chats'', ''1'', ''messages'', ''m1'']]"
proof -
  have t: "truthy (getProp examplePayloadChat ''chatId'')"
    by (simp add: examplePayloadChat_def field_def)
  from postMessage_returns_chatId_unchanged [OF t post_example_chat] show ?thesis
    by (simp add: post_example_chat t)
qed

end
